theory Spec2Isabelle
  imports Complex_Main "HOL-Library.AList" "HOL-Library.Char_ord" "HOL-Library.List_Lexorder"
    "HOL-Library.Multiset"
begin

section \<open>JavaScript strings and values\<close>

text \<open>
  A JavaScript string is modelled as a \<^typ>\<open>string\<close>: a list of code units below 256.
  \<open>null\<close> and \<open>undefined\<close> are both \<open>None\<close>; a value is truthy when it is present and,
  for a string, not empty.
\<close>

definition truthy :: "string option \<Rightarrow> bool" where
  "truthy v = (case v of None \<Rightarrow> False | Some s \<Rightarrow> s \<noteq> [])"

text \<open>\<open>a || b\<close> on an optional string \<open>a\<close> and a string \<open>b\<close>.\<close>

definition or_else :: "string option \<Rightarrow> string \<Rightarrow> string" where
  "or_else v d = (if truthy v then the v else d)"

text \<open>
  The code units below 256 that \<open>String.prototype.trim\<close> strips: TAB, LF, VT, FF, CR,
  SPACE and NBSP.
\<close>

definition is_ws :: "char \<Rightarrow> bool" where
  "is_ws c = (c \<in> {CHR 0x09, CHR 0x0A, CHR 0x0B, CHR 0x0C, CHR 0x0D, CHR 0x20, CHR 0xA0})"

definition trim :: "string \<Rightarrow> string" where
  "trim s = rev (dropWhile is_ws (rev (dropWhile is_ws s)))"

text \<open>\<open>s.split(c)\<close> for a one-character separator: never the empty list.\<close>

fun split_js :: "char \<Rightarrow> string \<Rightarrow> string list" where
  "split_js c [] = [[]]"
| "split_js c (x # xs) =
     (if x = c then [] # split_js c xs
      else (case split_js c xs of [] \<Rightarrow> [[x]] | y # ys \<Rightarrow> (x # y) # ys))"

text \<open>\<open>xs[i]\<close>: \<open>undefined\<close> out of range.\<close>

definition at_index :: "'a list \<Rightarrow> nat \<Rightarrow> 'a option" where
  "at_index xs i = (if i < length xs then Some (xs ! i) else None)"

text \<open>\<open>n.toString()\<close> for a non-negative integer: its decimal digits.\<close>

definition digit_char :: "nat \<Rightarrow> char" where
  "digit_char d = ''0123456789'' ! d"

fun toString :: "nat \<Rightarrow> string" where
  "toString n = (if n < 10 then [digit_char n] else toString (n div 10) @ [digit_char (n mod 10)])"

declare toString.simps [simp del]

text \<open>\<open>Date.now()\<close>: the \<open>k\<close>-th reading a handler takes is \<open>clk k\<close>.\<close>

type_synonym clock = "nat \<Rightarrow> nat"

text \<open>What a \<open>catch\<close> receives: an \<open>Error\<close> with its message, or any other value.\<close>

datatype thrown = JsError string | OtherThrown

section \<open>Data model (types.ts)\<close>

text \<open>
  \<open>dataUrl\<close> is declared \<open>string | null\<close>; every construction site supplies a string and
  the reads assert it (\<open>img.dataUrl!\<close>), so it is a string here. The two derived fields
  are \<open>undefined\<close> when the URL has no such piece.
\<close>

record ImageState =
  dataUrl :: string
  mimeType :: "string option"
  base64Data :: "string option"

datatype Role = User | Model

record Message =
  id_msg :: string
  role :: Role
  text_msg :: "string option"
  image_msg :: "string option"
  images :: "string list option"
  timestamp :: nat
  isError :: bool

record GenerationResult =
  imageUrl :: "string option"
  text_res :: "string option"

record AppSettings =
  temperature :: real
  style :: string
  aspectRatio :: string
  isFullBody :: bool

text \<open>
  \<open>settings\<close> is optional: persisted sessions may lack it (the editor and the start-up
  code both read \<open>session.settings || defaults\<close>).
\<close>

record Session =
  id_session :: string
  title :: string
  messages :: "Message list"
  activeImage :: "ImageState option"
  lastModified :: nat
  settings :: "AppSettings option"

definition default_settings :: AppSettings where
  "default_settings =
     \<lparr>temperature = 1, style = ''None'', aspectRatio = ''1:1'', isFullBody = False\<rparr>"

section \<open>Generation gateway (services/geminiService.ts)\<close>

datatype RequestPart = InlineDataPart string string | TextPart string

record GenerateContentRequest =
  model :: string
  request_parts :: "RequestPart list"
  config_temperature :: real
  systemInstruction :: string
  config_aspectRatio :: string

record Blob =
  blob_data :: "string option"
  blob_mimeType :: "string option"

record Part =
  inlineData :: "Blob option"
  part_text :: "string option"

record Content =
  content_parts :: "Part list option"

record Candidate =
  content :: "Content option"

record GenerateContentResponse =
  candidates :: "Candidate list option"

definition editingInstruction :: string where
  "editingInstruction =
     ''You are an expert image editing AI. Your task is to edit the input image based on the user's prompt.''
     @ [CHR 0x0A, CHR 0x0A] @ ''CRITICAL RULES:'' @ [CHR 0x0A]
     @ ''1. PRESERVE FIDELITY: You must strictly follow the geometry, facial features, architectural details, and composition of the input image. Do not reimagine the subject's identity or key structural elements unless explicitly asked to change them.''
     @ [CHR 0x0A]
     @ ''2. CONCISE EXECUTION: Execute the edit directly without adding unrequested elements or hallucinations.''
     @ [CHR 0x0A]
     @ ''3. STYLE TRANSFER: If a style is requested, apply the texture and lighting of the style onto the existing geometry. Do not distort faces or objects.''"

definition generationInstruction :: string where
  "generationInstruction =
     ''You are an expert image generation AI. Create a high-quality image based on the user's prompt.''"

text \<open>Lines 25-36: one inline part for every input that has both payload and MIME type.\<close>

definition input_parts :: "ImageState list \<Rightarrow> RequestPart list" where
  "input_parts inputs =
     concat (map (\<lambda>img. if truthy (base64Data img) \<and> truthy (mimeType img)
                          then [InlineDataPart (the (base64Data img)) (the (mimeType img))]
                          else []) inputs)"

text \<open>Lines 39-54: the prompt with the style and full-body instructions appended.\<close>

definition finalPrompt :: "ImageState list \<Rightarrow> string \<Rightarrow> AppSettings \<Rightarrow> string" where
  "finalPrompt inputs prompt st =
     (let p1 = (if style st \<noteq> [] \<and> style st \<noteq> ''None'' then
                  (if inputs \<noteq> [] then
                     prompt @ '' Change the art style to '' @ style st
                     @ ''. CRITICAL: You must STRICTLY PRESERVE the original facial features, identity, pose, and structural lines of the subject. Do not alter the face shape or geometry. Only apply the ''
                     @ style st @ '' aesthetic texture and lighting.''
                   else prompt @ '' Create the image in '' @ style st @ '' style.'')
                else prompt)
      in if isFullBody st
         then p1 @ '' Ensure the full body of the subject is visible and not cropped.''
         else p1)"

definition build_request :: "ImageState list \<Rightarrow> string \<Rightarrow> AppSettings \<Rightarrow> GenerateContentRequest" where
  "build_request inputs prompt st =
     \<lparr>model = ''gemini-2.5-flash-image'',
      request_parts = input_parts inputs @ [TextPart (finalPrompt inputs prompt st)],
      config_temperature = temperature st,
      systemInstruction = (if inputs \<noteq> [] then editingInstruction else generationInstruction),
      config_aspectRatio = aspectRatio st\<rparr>"

text \<open>The template literal \<open>`data:image/png;base64,${base64String}`\<close> (line 86).\<close>

definition png_data_url :: "string option \<Rightarrow> string" where
  "png_data_url base64String =
     ''data:image/png;base64,'' @ (case base64String of None \<Rightarrow> ''undefined'' | Some s \<Rightarrow> s)"

text \<open>
  The loop of lines 82-90 over the returned parts, carrying \<open>generatedImageUrl\<close> and
  \<open>generatedText\<close>. It has no \<open>break\<close>: every matching part assigns again.
\<close>

fun scan_parts :: "Part list \<Rightarrow> string option \<times> string option \<Rightarrow> string option \<times> string option" where
  "scan_parts [] acc = acc"
| "scan_parts (p # ps) (generatedImageUrl, generatedText) =
     (case inlineData p of
        Some b \<Rightarrow> scan_parts ps (Some (png_data_url (blob_data b)), generatedText)
      | None \<Rightarrow>
          (if truthy (part_text p) then scan_parts ps (generatedImageUrl, part_text p)
           else scan_parts ps (generatedImageUrl, generatedText)))"

text \<open>\<open>response.candidates?.[0]?.content?.parts\<close>\<close>

definition response_parts :: "GenerateContentResponse \<Rightarrow> Part list option" where
  "response_parts response =
     (case candidates response of
        None \<Rightarrow> None
      | Some cs \<Rightarrow>
          (case at_index cs 0 of
             None \<Rightarrow> None
           | Some c \<Rightarrow> (case content c of None \<Rightarrow> None | Some ct \<Rightarrow> content_parts ct)))"

text \<open>Lines 77-96.\<close>

definition parse_response :: "GenerateContentResponse \<Rightarrow> GenerationResult" where
  "parse_response response =
     (case response_parts response of
        None \<Rightarrow> \<lparr>imageUrl = None, text_res = None\<rparr>
      | Some ps \<Rightarrow>
          (case scan_parts ps (None, None) of
             (generatedImageUrl, generatedText) \<Rightarrow>
               \<lparr>imageUrl = generatedImageUrl, text_res = generatedText\<rparr>))"

text \<open>
  \<open>editImageWithGemini\<close>; the remote call \<open>ai.models.generateContent\<close> is the parameter
  \<open>generateContent\<close>. Whatever it throws is logged and thrown again.
\<close>

definition editImageWithGemini ::
  "(GenerateContentRequest \<Rightarrow> thrown + GenerateContentResponse) \<Rightarrow>
   ImageState list \<Rightarrow> string \<Rightarrow> AppSettings \<Rightarrow> thrown + GenerationResult" where
  "editImageWithGemini generateContent inputs prompt st =
     (case generateContent (build_request inputs prompt st) of
        Inl e \<Rightarrow> Inl e
      | Inr response \<Rightarrow> Inr (parse_response response))"

text \<open>The image parts and the text parts the loop assigns from, in order.\<close>

definition image_urls :: "Part list \<Rightarrow> string list" where
  "image_urls ps = List.map_filter (\<lambda>p. map_option (\<lambda>b. png_data_url (blob_data b)) (inlineData p)) ps"

definition text_values :: "Part list \<Rightarrow> string list" where
  "text_values ps =
     List.map_filter (\<lambda>p. if inlineData p = None \<and> truthy (part_text p) then part_text p else None) ps"

definition last_option :: "'a list \<Rightarrow> 'a option" where
  "last_option xs = (if xs = [] then None else Some (last xs))"

definition inline_part :: "string \<Rightarrow> Part" where
  "inline_part d = \<lparr>inlineData = Some \<lparr>blob_data = Some d, blob_mimeType = Some ''image/png''\<rparr>,
                    part_text = None\<rparr>"

definition text_part :: "string \<Rightarrow> Part" where
  "text_part t = \<lparr>inlineData = None, part_text = Some t\<rparr>"

definition response_of_parts :: "Part list \<Rightarrow> GenerateContentResponse" where
  "response_of_parts ps = \<lparr>candidates = Some [\<lparr>content = Some \<lparr>content_parts = Some ps\<rparr>\<rparr>]\<rparr>"

section \<open>Context resolution and turn engine (components/ImageEditor.tsx)\<close>

text \<open>The component's local state (the \<open>useState\<close> cells and the session-id ref).\<close>

record EditorState =
  inputValue :: string
  isLoading :: bool
  isEnhancing :: bool
  showSettings :: bool
  pendingImages :: "ImageState list"
  retryTargetIndex :: "nat option"
  retryPrompt :: string
  retrySettings :: "AppSettings option"
  activeSessionIdRef :: string

text \<open>
  What one run of a handler does: the sessions it passes to \<open>onUpdateSession\<close>, in
  order; the arguments of its call to the gateway, if it makes one; the local state it
  leaves. The run is taken without a session switch while the call is outstanding.
\<close>

record TurnResult =
  updates :: "Session list"
  gateway_call :: "(ImageState list \<times> string \<times> AppSettings) option"
  editor :: EditorState

text \<open>\<open>session.settings || { temperature: 1.0, ... }\<close> (line 101).\<close>

definition session_settings :: "Session \<Rightarrow> AppSettings" where
  "session_settings session = (case settings session of None \<Rightarrow> default_settings | Some st \<Rightarrow> st)"

text \<open>
  The object literal \<open>{dataUrl: url, mimeType: url.split(';')[0].split(':')[1],
  base64Data: url.split(',')[1]}\<close> that lines 293-297, 303-307, 417-421, 427-431 and
  435-439 all build.
\<close>

definition image_of_url :: "string \<Rightarrow> ImageState" where
  "image_of_url url =
     \<lparr>dataUrl = url,
      mimeType = (case split_js CHR '';'' url of [] \<Rightarrow> None
                  | h # _ \<Rightarrow> at_index (split_js CHR '':'' h) 1),
      base64Data = at_index (split_js CHR '','' url) 1\<rparr>"

text \<open>
  The history loops of lines 289-311 and 423-442, on the messages from index \<open>i\<close> down to
  0 (most recent first): the first message with a non-empty \<open>images\<close> gives the last of
  its images, else a truthy \<open>image\<close> gives that one, else the loop goes on.
\<close>

fun scan_history :: "Message list \<Rightarrow> ImageState option" where
  "scan_history [] = None"
| "scan_history (msg # older) =
     (case images msg of
        Some (u # us) \<Rightarrow> Some (image_of_url (last (u # us)))
      | _ \<Rightarrow> (if truthy (image_msg msg) then Some (image_of_url (the (image_msg msg)))
              else scan_history older))"

text \<open>Lines 279-312: \<open>(imagesToSend, nextActiveImage)\<close>.\<close>

definition resolve_context ::
  "ImageState list \<Rightarrow> ImageState option \<Rightarrow> Message list \<Rightarrow> ImageState list \<times> ImageState option" where
  "resolve_context currentPendingImages active msgs =
     (if currentPendingImages \<noteq> [] then (currentPendingImages, Some (last currentPendingImages))
      else (case active of
              Some a \<Rightarrow> ([a], active)
            | None \<Rightarrow> (case scan_history (rev msgs) of
                         Some im \<Rightarrow> ([im], Some im)
                       | None \<Rightarrow> ([], active))))"

text \<open>Lines 267-273.\<close>

definition new_title :: "Session \<Rightarrow> string \<Rightarrow> ImageState list \<Rightarrow> string" where
  "new_title session userText currentPendingImages =
     (if length (messages session) \<le> 1 \<and> userText \<noteq> [] then
        take 30 userText @ (if length userText > 30 then ''...'' else [])
      else if length (messages session) \<le> 1 \<and> currentPendingImages \<noteq> [] then ''Image Edit Session''
      else title session)"

text \<open>Lines 257-263.\<close>

definition new_user_message :: "clock \<Rightarrow> string \<Rightarrow> ImageState list \<Rightarrow> Message" where
  "new_user_message clk userText currentPendingImages =
     \<lparr>id_msg = toString (clk 0), role = User, text_msg = Some userText, image_msg = None,
      images = (if currentPendingImages \<noteq> [] then Some (map dataUrl currentPendingImages) else None),
      timestamp = clk 1, isError = False\<rparr>"

text \<open>The image the editor makes active from a returned URL (lines 350-354, 483-487).\<close>

definition result_image :: "string \<Rightarrow> ImageState" where
  "result_image url =
     \<lparr>dataUrl = url, mimeType = Some ''image/png'', base64Data = at_index (split_js CHR '','' url) 1\<rparr>"

definition image_message :: "clock \<Rightarrow> nat \<Rightarrow> string \<Rightarrow> Message" where
  "image_message clk k url =
     \<lparr>id_msg = toString (clk k + 1), role = Model, text_msg = None, image_msg = None,
      images = Some [url], timestamp = clk (k + 1), isError = False\<rparr>"

definition text_message :: "clock \<Rightarrow> nat \<Rightarrow> string option \<Rightarrow> Message" where
  "text_message clk k t =
     \<lparr>id_msg = toString (clk k + 1), role = Model,
      text_msg = Some (or_else t ''I processed the request but didn't generate a new image.''),
      image_msg = None, images = None, timestamp = clk (k + 1), isError = False\<rparr>"

definition error_message :: "clock \<Rightarrow> nat \<Rightarrow> string \<Rightarrow> thrown \<Rightarrow> Message" where
  "error_message clk k fallback e =
     \<lparr>id_msg = toString (clk k), role = Model,
      text_msg = Some (case e of JsError m \<Rightarrow> ''Error: '' @ m | OtherThrown \<Rightarrow> fallback),
      image_msg = None, images = None, timestamp = clk (k + 1), isError = True\<rparr>"

text \<open>
  Lines 325-386: the session \<open>handleSendMessage\<close> passes to \<open>onUpdateSession\<close> when the
  gateway call has settled. Each branch spreads the \<open>session\<close> the handler was called
  with.
\<close>

definition send_completion ::
  "clock \<Rightarrow> Session \<Rightarrow> string \<Rightarrow> Message list \<Rightarrow> thrown + GenerationResult \<Rightarrow> Session" where
  "send_completion clk session newTitle updatedMessages outcome =
     (case outcome of
        Inr result \<Rightarrow>
          (if truthy (imageUrl result) then
             session\<lparr>title := newTitle,
                     messages := updatedMessages @ [image_message clk 3 (the (imageUrl result))],
                     activeImage := Some (result_image (the (imageUrl result))),
                     lastModified := clk 5\<rparr>
           else
             session\<lparr>title := newTitle,
                     messages := updatedMessages @ [text_message clk 3 (text_res result)],
                     lastModified := clk 5\<rparr>)
      | Inl e \<Rightarrow>
          session\<lparr>title := newTitle,
                  messages := updatedMessages @
                    [error_message clk 3 ''Sorry, something went wrong with the image generation.'' e],
                  lastModified := clk 5\<rparr>)"

text \<open>The guard of line 246.\<close>

definition send_rejected :: "EditorState \<Rightarrow> bool" where
  "send_rejected ed = ((trim (inputValue ed) = [] \<and> pendingImages ed = []) \<or> isLoading ed)"

definition handleSendMessage ::
  "(GenerateContentRequest \<Rightarrow> thrown + GenerateContentResponse) \<Rightarrow> clock \<Rightarrow>
   Session \<Rightarrow> EditorState \<Rightarrow> TurnResult" where
  "handleSendMessage generateContent clk session ed =
     (if send_rejected ed then
        \<lparr>updates = [], gateway_call = None, editor = ed\<rparr>
      else
        (let userText = trim (inputValue ed);
             currentPendingImages = pendingImages ed;
             updatedMessages = messages session @ [new_user_message clk userText currentPendingImages];
             newTitle = new_title session userText currentPendingImages;
             (imagesToSend, nextActiveImage) =
               resolve_context currentPendingImages (activeImage session) (messages session);
             effectivePrompt = (if userText \<noteq> [] then userText else ''Edit this image'');
             outcome = editImageWithGemini generateContent imagesToSend effectivePrompt
                         (session_settings session)
         in \<lparr>updates =
               [session\<lparr>title := newTitle, messages := updatedMessages,
                        activeImage := nextActiveImage, lastModified := clk 2\<rparr>,
                send_completion clk session newTitle updatedMessages outcome],
             gateway_call = Some (imagesToSend, effectivePrompt, session_settings session),
             editor = ed\<lparr>inputValue := [], showSettings := False, pendingImages := [],
                        isLoading := (activeSessionIdRef ed \<noteq> id_session session)\<rparr>\<rparr>))"

text \<open>Lines 414-443: the inputs of a retry, for the user message at \<open>msgIndex - 1\<close>.\<close>

definition retry_inputs :: "Message list \<Rightarrow> nat \<Rightarrow> Message \<Rightarrow> ImageState list" where
  "retry_inputs msgs msgIndex userMsg =
     (case images userMsg of
        Some (u # us) \<Rightarrow> map image_of_url (u # us)
      | _ \<Rightarrow> (case scan_history (rev (take (msgIndex - 1) msgs)) of
                None \<Rightarrow> []
              | Some im \<Rightarrow> [im]))"

text \<open>Lines 445-447.\<close>

definition fullPrompt :: "Message \<Rightarrow> string \<Rightarrow> string" where
  "fullPrompt userMsg feedback =
     (let basePrompt = or_else (text_msg userMsg) [];
          additionalPrompt = (if trim feedback \<noteq> [] then '' '' @ trim feedback else []);
          combined = basePrompt @ additionalPrompt
      in if combined \<noteq> [] then combined else ''Edit this image'')"

text \<open>Lines 461-518: the session \<open>confirmRetry\<close> passes on when the call has settled.\<close>

definition retry_completion ::
  "clock \<Rightarrow> Session \<Rightarrow> Message list \<Rightarrow> ImageState option \<Rightarrow> thrown + GenerationResult \<Rightarrow> Session" where
  "retry_completion clk session newMessages revertedActiveImage outcome =
     (case outcome of
        Inr result \<Rightarrow>
          (if truthy (imageUrl result) then
             session\<lparr>messages := newMessages @ [image_message clk 0 (the (imageUrl result))],
                     activeImage := Some (result_image (the (imageUrl result))),
                     lastModified := clk 2\<rparr>
           else
             session\<lparr>messages := newMessages @ [text_message clk 0 (text_res result)],
                     activeImage := revertedActiveImage,
                     lastModified := clk 2\<rparr>)
      | Inl e \<Rightarrow>
          session\<lparr>messages := newMessages @ [error_message clk 0 ''Sorry, something went wrong.'' e],
                  lastModified := clk 2\<rparr>)"

text \<open>\<open>messages[msgIndex - 1]\<close>: \<open>undefined\<close> for index 0 and beyond the end.\<close>

definition preceding_message :: "Message list \<Rightarrow> nat \<Rightarrow> Message option" where
  "preceding_message msgs msgIndex = (if msgIndex = 0 then None else at_index msgs (msgIndex - 1))"

definition confirmRetry ::
  "(GenerateContentRequest \<Rightarrow> thrown + GenerateContentResponse) \<Rightarrow> clock \<Rightarrow>
   Session \<Rightarrow> EditorState \<Rightarrow> TurnResult" where
  "confirmRetry generateContent clk session ed =
     (case (retryTargetIndex ed, retrySettings ed) of
        (Some msgIndex, Some rs) \<Rightarrow>
          (if isLoading ed then
             \<lparr>updates = [], gateway_call = None, editor = ed\<lparr>retryTargetIndex := None\<rparr>\<rparr>
           else
             (case preceding_message (messages session) msgIndex of
                None \<Rightarrow> \<lparr>updates = [], gateway_call = None, editor = ed\<lparr>retryTargetIndex := None\<rparr>\<rparr>
              | Some userMsg \<Rightarrow>
                  (let inputs = retry_inputs (messages session) msgIndex userMsg;
                       prompt = fullPrompt userMsg (retryPrompt ed);
                       newMessages = take msgIndex (messages session);
                       revertedActiveImage = (if inputs \<noteq> [] then Some (last inputs) else None);
                       outcome = editImageWithGemini generateContent inputs prompt rs
                   in \<lparr>updates =
                         [session\<lparr>messages := newMessages, activeImage := revertedActiveImage\<rparr>,
                          retry_completion clk session newMessages revertedActiveImage outcome],
                       gateway_call = Some (inputs, prompt, rs),
                       editor = ed\<lparr>retryTargetIndex := None,
                                  isLoading := (activeSessionIdRef ed \<noteq> id_session session)\<rparr>\<rparr>)))
      | _ \<Rightarrow> \<lparr>updates = [], gateway_call = None, editor = ed\<rparr>)"

text \<open>\<open>initiateRetry\<close> (lines 395-400).\<close>

definition initiateRetry :: "Session \<Rightarrow> nat \<Rightarrow> EditorState \<Rightarrow> EditorState" where
  "initiateRetry session msgIndex ed =
     ed\<lparr>retryTargetIndex := Some msgIndex, retrySettings := Some (session_settings session),
        retryPrompt := []\<rparr>"

text \<open>\<open>Partial<AppSettings>\<close> and \<open>updateSettings\<close> (lines 235-240).\<close>

record SettingsPatch =
  patch_temperature :: "real option"
  patch_style :: "string option"
  patch_aspectRatio :: "string option"
  patch_isFullBody :: "bool option"

definition merge_settings :: "AppSettings \<Rightarrow> SettingsPatch \<Rightarrow> AppSettings" where
  "merge_settings st p =
     \<lparr>temperature = (case patch_temperature p of None \<Rightarrow> temperature st | Some v \<Rightarrow> v),
      style = (case patch_style p of None \<Rightarrow> style st | Some v \<Rightarrow> v),
      aspectRatio = (case patch_aspectRatio p of None \<Rightarrow> aspectRatio st | Some v \<Rightarrow> v),
      isFullBody = (case patch_isFullBody p of None \<Rightarrow> isFullBody st | Some v \<Rightarrow> v)\<rparr>"

definition updateSettings :: "SettingsPatch \<Rightarrow> Session \<Rightarrow> Session" where
  "updateSettings newSettings session =
     session\<lparr>settings := Some (merge_settings (session_settings session) newSettings)\<rparr>"

text \<open>
  The effect of lines 117-130. React runs it after the first render and after every
  render in which \<open>session.id\<close> differs from the previous render's; \<open>prev\<close> is the
  previous render's id, \<open>None\<close> at the first render.
\<close>

definition reset_local_state :: "Session \<Rightarrow> EditorState \<Rightarrow> EditorState" where
  "reset_local_state session ed =
     ed\<lparr>activeSessionIdRef := id_session session, pendingImages := [], inputValue := [],
        showSettings := False, isLoading := False, isEnhancing := False,
        retryTargetIndex := None, retrySettings := None, retryPrompt := []\<rparr>"

definition session_id_effect :: "string option \<Rightarrow> Session \<Rightarrow> EditorState \<Rightarrow> EditorState" where
  "session_id_effect prev session ed =
     (if prev = Some (id_session session) then ed else reset_local_state session ed)"

text \<open>The sidebar's listing (Sidebar, line 73); \<open>Array.prototype.sort\<close> is stable.\<close>

definition newest_first :: "Session list \<Rightarrow> Session list" where
  "newest_first ss = sort_key (\<lambda>s. - int (lastModified s)) ss"

section \<open>Persistent store (services/storageService.ts)\<close>

text \<open>
  The browser's storage as the code sees it: whether \<open>initDB\<close> resolves, which records
  \<open>store.put\<close> accepts (for the others the call throws), the object store \<open>sessions\<close>
  with one record per key \<open>id\<close>, and the local-storage item \<open>flash_editor_sessions\<close>.
\<close>

record Storage =
  db_ok :: bool
  put_ok :: "Session \<Rightarrow> bool"
  primary :: "(string \<times> Session) list"
  legacy :: "string option"


text \<open>
  \<open>saveSessionToDB\<close>: an upsert by \<open>id\<close>. A rejection of \<open>initDB\<close> is caught and logged
  (line 179). The promise of the request is returned without \<open>await\<close>, so when the put is
  refused the rejection passes the \<open>catch\<close> and reaches whoever awaits the call: the first
  component is that rejection, if any.
\<close>

definition saveSessionToDB :: "Session \<Rightarrow> Storage \<Rightarrow> thrown option \<times> Storage" where
  "saveSessionToDB session st =
     (if \<not> db_ok st then (None, st)
      else if put_ok st session
      then (None, st\<lparr>primary := AList.update (id_session session) session (primary st)\<rparr>)
      else (Some (JsError ''put failed''), st))"


text \<open>
  What \<open>JSON.parse\<close> returns for the legacy item: an array of session records or some
  other value. \<open>JSON.parse\<close> itself is a parameter of the model; \<open>None\<close> is a
  \<open>SyntaxError\<close>.
\<close>

datatype parsed_json = JsonArray "Session list" | JsonOther

definition put_all :: "Session list \<Rightarrow> (string \<times> Session) list \<Rightarrow> (string \<times> Session) list" where
  "put_all parsed al = foldl (\<lambda>acc session. AList.update (id_session session) session acc) al parsed"

text \<open>
  The \<open>try\<close> block of lines 203-226, with the storage it leaves. \<open>Inl\<close> is what it
  throws: a \<open>SyntaxError\<close> of \<open>JSON.parse\<close>, the rejection of \<open>initDB\<close>, or the
  rejection of \<open>Promise.all\<close>. \<open>parsed.map\<close> runs every executor before anything is
  awaited; a \<open>store.put\<close> that throws rejects its own promise only, the puts of the other
  entries are queued all the same and nothing aborts the transaction, so those are stored.
  \<open>Inr\<close> is a normal end: the list returned at line 225, or \<open>None\<close> when control leaves
  the \<open>if\<close>.
\<close>

definition migrate_try ::
  "(string \<Rightarrow> parsed_json option) \<Rightarrow> string \<Rightarrow> Storage \<Rightarrow>
   (thrown + Session list option) \<times> Storage" where
  "migrate_try JSON_parse saved st =
     (case JSON_parse saved of
        None \<Rightarrow> (Inl (JsError ''SyntaxError''), st)
      | Some JsonOther \<Rightarrow> (Inr None, st)
      | Some (JsonArray parsed) \<Rightarrow>
          (if parsed = [] then (Inr None, st)
           else if \<not> db_ok st then (Inl (JsError ''IndexedDB error''), st)
           else if list_all (put_ok st) parsed
           then (Inr (Some parsed), st\<lparr>primary := put_all parsed (primary st), legacy := None\<rparr>)
           else (Inl (JsError ''put failed''),
                 st\<lparr>primary := put_all (filter (put_ok st) parsed) (primary st)\<rparr>)))"

text \<open>\<open>clearLocalStorageAndMigrate\<close>: the \<open>catch\<close> logs and falls through to \<open>return null\<close>.\<close>

definition clearLocalStorageAndMigrate ::
  "(string \<Rightarrow> parsed_json option) \<Rightarrow> Storage \<Rightarrow> Session list option \<times> Storage" where
  "clearLocalStorageAndMigrate JSON_parse st =
     (if truthy (legacy st) then
        (case migrate_try JSON_parse (the (legacy st)) st of
           (Inl e, st') \<Rightarrow> (None, st')
         | (Inr r, st') \<Rightarrow> (r, st'))
      else (None, st))"

section \<open>Session store (App.tsx)\<close>

record AppState =
  sessions :: "Session list"
  currentSessionId :: "string option"
  isInitialized :: bool
  storage :: Storage



text \<open>The two handlers below do not await their writes: a rejection goes nowhere.\<close>

definition handleUpdateSession :: "Session \<Rightarrow> AppState \<Rightarrow> AppState" where
  "handleUpdateSession updatedSession app =
     app\<lparr>sessions := map (\<lambda>s. if id_session s = id_session updatedSession then updatedSession else s)
                          (sessions app),
         storage := snd (saveSessionToDB updatedSession (storage app))\<rparr>"


definition handleSelectSession :: "string \<Rightarrow> AppState \<Rightarrow> AppState" where
  "handleSelectSession sid app = app\<lparr>currentSessionId := Some sid\<rparr>"





text \<open>
  The user's create and delete actions, each with the clock it reads. The button calls
  \<open>createNewSession\<close> without awaiting it.
\<close>

datatype session_op = Create clock | Delete clock string



section \<open>Notions used to state the properties\<close>

text \<open>
  A retry goes ahead when a target and its settings are set, nothing is in flight and the
  target has a preceding message (the guards of lines 403-412).
\<close>

definition retry_accepted :: "Session \<Rightarrow> EditorState \<Rightarrow> nat \<Rightarrow> AppSettings \<Rightarrow> Message \<Rightarrow> bool" where
  "retry_accepted session ed msgIndex rs userMsg =
     (retryTargetIndex ed = Some msgIndex \<and> retrySettings ed = Some rs \<and> \<not> isLoading ed \<and>
      preceding_message (messages session) msgIndex = Some userMsg)"

text \<open>
  The specification's ``message carrying an image'': a non-empty \<open>images\<close> list or a
  non-empty legacy \<open>image\<close>. Its image is the last of the list when there is one (the
  multi-image field is looked at first), else the legacy image. The ``last message carrying
  an image'' is the most recent such message.
\<close>

definition carries_image :: "Message \<Rightarrow> bool" where
  "carries_image m = ((case images m of Some (u # us) \<Rightarrow> True | _ \<Rightarrow> False) \<or> truthy (image_msg m))"

definition message_image :: "Message \<Rightarrow> string" where
  "message_image m = (case images m of Some (u # us) \<Rightarrow> last (u # us) | _ \<Rightarrow> the (image_msg m))"

definition last_image_message :: "Message list \<Rightarrow> Message option" where
  "last_image_message msgs = last_option (filter carries_image msgs)"


section \<open>Example data\<close>

text \<open>Three remote services: one that fails, one that answers with text, one with an image.\<close>

definition no_service :: "GenerateContentRequest \<Rightarrow> thrown + GenerateContentResponse" where
  "no_service req = Inl OtherThrown"

definition text_service :: "GenerateContentRequest \<Rightarrow> thrown + GenerateContentResponse" where
  "text_service req = Inr (response_of_parts [text_part ''no image''])"

definition image_service :: "GenerateContentRequest \<Rightarrow> thrown + GenerateContentResponse" where
  "image_service req = Inr (response_of_parts [inline_part ''ZZZZ''])"

definition tick :: clock where
  "tick k = 1000 + k"

definition url_X :: string where
  "url_X = ''data:image/png;base64,XXXX''"

definition url_Y :: string where
  "url_Y = ''data:image/png;base64,YYYY''"

definition url_Z :: string where
  "url_Z = ''data:image/png;base64,ZZZZ''"

definition user_message :: "string \<Rightarrow> string list option \<Rightarrow> Message" where
  "user_message t imgs = \<lparr>id_msg = ''1'', role = User, text_msg = Some t, image_msg = None,
     images = imgs, timestamp = 1, isError = False\<rparr>"

definition model_image_message :: "string \<Rightarrow> Message" where
  "model_image_message u = \<lparr>id_msg = ''2'', role = Model, text_msg = None, image_msg = None,
     images = Some [u], timestamp = 2, isError = False\<rparr>"

text \<open>A user message as older versions stored it: the image in the \<open>image\<close> field.\<close>

definition legacy_user_message :: Message where
  "legacy_user_message = \<lparr>id_msg = ''1'', role = User, text_msg = Some ''add a hat'',
     image_msg = Some url_X, images = None, timestamp = 1, isError = False\<rparr>"

definition new_chat :: Session where
  "new_chat = \<lparr>id_session = ''s1'', title = ''New Chat'', messages = [], activeImage = None,
     lastModified = 0, settings = Some default_settings\<rparr>"

definition old_session :: Session where
  "old_session = \<lparr>id_session = ''s0'', title = ''older'', messages = [], activeImage = None,
     lastModified = 3, settings = None\<rparr>"

text \<open>
  The retry-rewind scenario: the user sent image \<open>X\<close> with ``add a hat'', the model
  answered with image \<open>Y\<close>, which is active.
\<close>

definition hat_session :: Session where
  "hat_session = \<lparr>id_session = ''s1'', title = ''add a hat'',
     messages = [user_message ''add a hat'' (Some [url_X]), model_image_message url_Y],
     activeImage = Some (result_image url_Y), lastModified = 5, settings = Some default_settings\<rparr>"

definition legacy_session :: Session where
  "legacy_session = \<lparr>id_session = ''s1'', title = ''add a hat'',
     messages = [legacy_user_message, model_image_message url_Y],
     activeImage = Some (result_image url_Y), lastModified = 5, settings = Some default_settings\<rparr>"

definition idle_editor :: EditorState where
  "idle_editor = \<lparr>inputValue = [], isLoading = False, isEnhancing = False, showSettings = False,
     pendingImages = [], retryTargetIndex = None, retryPrompt = [], retrySettings = None,
     activeSessionIdRef = ''s1''\<rparr>"

definition blue_editor :: EditorState where
  "blue_editor = idle_editor\<lparr>inputValue := ''make it blue''\<rparr>"

definition sky_editor :: EditorState where
  "sky_editor = idle_editor\<lparr>inputValue := ''Make the sky orange and dramatic please''\<rparr>"

definition attach_editor :: EditorState where
  "attach_editor = idle_editor\<lparr>pendingImages := [image_of_url url_X]\<rparr>"

definition retry_editor :: EditorState where
  "retry_editor = idle_editor\<lparr>retryTargetIndex := Some 1, retrySettings := Some default_settings\<rparr>"

definition busy_editor :: EditorState where
  "busy_editor = \<lparr>inputValue = ''draft text'', isLoading = True, isEnhancing = True,
     showSettings = True, pendingImages = [image_of_url url_X], retryTargetIndex = Some 1,
     retryPrompt = ''brighter'', retrySettings = Some default_settings,
     activeSessionIdRef = ''s0''\<rparr>"

definition anime_patch :: SettingsPatch where
  "anime_patch = \<lparr>patch_temperature = None, patch_style = Some ''Anime'', patch_aspectRatio = None,
     patch_isFullBody = None\<rparr>"


definition empty_storage :: Storage where
  "empty_storage = \<lparr>db_ok = True, put_ok = (\<lambda>s. True), primary = [], legacy = None\<rparr>"


text \<open>A store that refuses every record, and one that refuses the session \<open>s0\<close> only.\<close>

definition refusing_storage :: Storage where
  "refusing_storage = empty_storage\<lparr>put_ok := (\<lambda>s. False)\<rparr>"





section \<open>Lemmas about the handlers\<close>

lemma scan_parts_last:
  "scan_parts ps (i, t) =
     (if image_urls ps = [] then i else Some (last (image_urls ps)),
      if text_values ps = [] then t else Some (last (text_values ps)))"
proof (induction ps arbitrary: i t)
  case Nil
  then show ?case by (simp add: image_urls_def text_values_def)
next
  case (Cons p ps)
  then show ?case
    by (cases "inlineData p")
       (auto simp: image_urls_def text_values_def truthy_def
             split: option.splits)
qed

lemma trim_sky: "trim ''Make the sky orange and dramatic please'' = ''Make the sky orange and dramatic please''"
  by (simp add: trim_def is_ws_def)

lemma send_completion_title [simp]: "title (send_completion clk session T M outcome) = T"
  by (simp add: send_completion_def split: sum.splits)

lemma send_completion_lastModified [simp]: "lastModified (send_completion clk session T M outcome) = clk 5"
  by (simp add: send_completion_def split: sum.splits)

lemma send_completion_messages:
  "\<exists>m. messages (send_completion clk session T M outcome) = M @ [m] \<and> role m = Model
       \<and> (isError m \<longleftrightarrow> isl outcome)"
  by (simp add: send_completion_def image_message_def text_message_def error_message_def split: sum.splits)

lemma send_accepted_updates:
  "\<not> send_rejected ed \<Longrightarrow>
   updates (handleSendMessage gc clk session ed) =
     [session\<lparr>title := new_title session (trim (inputValue ed)) (pendingImages ed),
              messages := messages session @ [new_user_message clk (trim (inputValue ed)) (pendingImages ed)],
              activeImage := snd (resolve_context (pendingImages ed) (activeImage session) (messages session)),
              lastModified := clk 2\<rparr>,
      send_completion clk session (new_title session (trim (inputValue ed)) (pendingImages ed))
        (messages session @ [new_user_message clk (trim (inputValue ed)) (pendingImages ed)])
        (editImageWithGemini gc
           (fst (resolve_context (pendingImages ed) (activeImage session) (messages session)))
           (if trim (inputValue ed) \<noteq> [] then trim (inputValue ed) else ''Edit this image'')
           (session_settings session))]"
  by (simp add: handleSendMessage_def Let_def case_prod_beta)

lemma send_accepted_call:
  "\<not> send_rejected ed \<Longrightarrow>
   gateway_call (handleSendMessage gc clk session ed) =
     Some (fst (resolve_context (pendingImages ed) (activeImage session) (messages session)),
           (if trim (inputValue ed) \<noteq> [] then trim (inputValue ed) else ''Edit this image''),
           session_settings session)"
  by (simp add: handleSendMessage_def Let_def case_prod_beta)

lemma send_rejected_result:
  "send_rejected ed \<Longrightarrow>
   handleSendMessage gc clk session ed = \<lparr>updates = [], gateway_call = None, editor = ed\<rparr>"
  by (simp add: handleSendMessage_def)

lemma retry_completion_title [simp]: "title (retry_completion clk session M a outcome) = title session"
  by (simp add: retry_completion_def split: sum.splits)

lemma retry_completion_lastModified [simp]: "lastModified (retry_completion clk session M a outcome) = clk 2"
  by (simp add: retry_completion_def split: sum.splits)

lemma retry_completion_messages:
  "\<exists>m. messages (retry_completion clk session M a outcome) = M @ [m] \<and> role m = Model
       \<and> (isError m \<longleftrightarrow> isl outcome)"
  by (simp add: retry_completion_def image_message_def text_message_def error_message_def split: sum.splits)

lemma retry_accepted_updates:
  "retry_accepted session ed msgIndex rs userMsg \<Longrightarrow>
   updates (confirmRetry gc clk session ed) =
     [session\<lparr>messages := take msgIndex (messages session),
              activeImage := last_option (retry_inputs (messages session) msgIndex userMsg)\<rparr>,
      retry_completion clk session (take msgIndex (messages session))
        (last_option (retry_inputs (messages session) msgIndex userMsg))
        (editImageWithGemini gc (retry_inputs (messages session) msgIndex userMsg)
           (fullPrompt userMsg (retryPrompt ed)) rs)]"
  by (simp add: confirmRetry_def retry_accepted_def Let_def last_option_def)

lemma retry_accepted_call:
  "retry_accepted session ed msgIndex rs userMsg \<Longrightarrow>
   gateway_call (confirmRetry gc clk session ed) =
     Some (retry_inputs (messages session) msgIndex userMsg, fullPrompt userMsg (retryPrompt ed), rs)"
  by (simp add: confirmRetry_def retry_accepted_def Let_def)

lemma retry_not_accepted_updates:
  "(\<And>msgIndex rs userMsg. \<not> retry_accepted session ed msgIndex rs userMsg) \<Longrightarrow>
   updates (confirmRetry gc clk session ed) = []"
  by (auto simp: confirmRetry_def retry_accepted_def Let_def split: option.splits)

lemma preceding_message_bounds:
  "preceding_message msgs i = Some m \<Longrightarrow> 0 < i \<and> i \<le> length msgs \<and> m = msgs ! (i - 1)"
  by (auto simp: preceding_message_def at_index_def split: if_splits)

lemma scan_history_hit:
  "carries_image m \<Longrightarrow> scan_history (m # ms) = Some (image_of_url (message_image m))"
  by (auto simp: carries_image_def message_image_def split: option.splits list.splits)

lemma scan_history_miss: "\<not> carries_image m \<Longrightarrow> scan_history (m # ms) = scan_history ms"
  by (auto simp: carries_image_def split: option.splits list.splits)

lemma scan_history_find:
  "scan_history ms = map_option (\<lambda>m. image_of_url (message_image m)) (find carries_image ms)"
proof (induction ms)
  case Nil
  then show ?case by simp
next
  case (Cons m ms)
  then show ?case
    by (cases "carries_image m") (simp_all add: scan_history_hit scan_history_miss del: scan_history.simps)
qed

lemma find_append_option:
  "find P (xs @ ys) = (case find P xs of None \<Rightarrow> find P ys | Some x \<Rightarrow> Some x)"
  by (induction xs) auto

lemma find_rev_last: "find P (rev xs) = last_option (filter P xs)"
  by (induction xs) (auto simp: last_option_def find_append_option split: option.splits)

lemma scan_history_rev:
  "scan_history (rev msgs) = map_option (\<lambda>m. image_of_url (message_image m)) (last_image_message msgs)"
  by (simp add: scan_history_find find_rev_last last_image_message_def)

lemma retry_inputs_own_images:
  "images userMsg = Some (u # us) \<Longrightarrow> retry_inputs msgs msgIndex userMsg = map image_of_url (u # us)"
  by (simp add: retry_inputs_def)

lemma retry_inputs_earlier_history:
  "images userMsg = None \<or> images userMsg = Some [] \<Longrightarrow>
   retry_inputs msgs msgIndex userMsg =
     (case last_image_message (take (msgIndex - 1) msgs) of
        None \<Rightarrow> []
      | Some m \<Rightarrow> [image_of_url (message_image m)])"
  by (auto simp: retry_inputs_def scan_history_rev split: option.splits)

lemma fullPrompt_cases:
  "fullPrompt userMsg feedback =
     (if trim feedback \<noteq> [] then or_else (text_msg userMsg) [] @ '' '' @ trim feedback
      else if truthy (text_msg userMsg) then the (text_msg userMsg)
      else ''Edit this image'')"
  by (auto simp: fullPrompt_def or_else_def Let_def truthy_def split: option.splits)

lemma split_js_nonempty [simp]: "split_js c s \<noteq> []"
  by (induction s) (auto split: list.splits)

lemma split_js_prefix: "c \<notin> set p \<Longrightarrow> split_js c (p @ c # rest) = p # split_js c rest"
  by (induction p) auto

lemma split_colon_mime: "at_index (split_js CHR '':'' ''data:image/png'') 1 = Some ''image/png''"
  by (simp add: at_index_def)

lemma image_of_png_data_url: "image_of_url (png_data_url b) = result_image (png_data_url b)"
proof -
  obtain payload where p: "png_data_url b = ''data:image/png'' @ CHR '';'' # (''base64,'' @ payload)"
    by (simp add: png_data_url_def)
  have "split_js CHR '';'' (png_data_url b) = ''data:image/png'' # split_js CHR '';'' (''base64,'' @ payload)"
    unfolding p by (rule split_js_prefix) simp
  then show ?thesis
    by (simp only: image_of_url_def result_image_def list.case split_colon_mime)
qed

lemma image_urls_png: "u \<in> set (image_urls ps) \<Longrightarrow> \<exists>b. u = png_data_url b"
  by (induction ps) (auto simp: image_urls_def split: option.splits)

lemma parse_response_png:
  assumes "imageUrl (parse_response response) = Some u"
  shows "\<exists>b. u = png_data_url b"
proof -
  from assms obtain ps where ps: "response_parts response = Some ps"
    by (auto simp: parse_response_def split: option.splits)
  with assms have "last_option (image_urls ps) = Some u"
    by (simp add: parse_response_def scan_parts_last last_option_def split: if_splits)
  then have "u \<in> set (image_urls ps)"
    by (auto simp: last_option_def split: if_splits)
  then show ?thesis by (rule image_urls_png)
qed

lemma gateway_png:
  assumes "editImageWithGemini gc imgs prompt st = Inr result" and "truthy (imageUrl result)"
  shows "result_image (the (imageUrl result)) = image_of_url (the (imageUrl result))"
proof -
  from assms(2) obtain u where u: "imageUrl result = Some u"
    by (auto simp: truthy_def split: option.splits)
  from assms(1) obtain response where "result = parse_response response"
    by (auto simp: editImageWithGemini_def split: sum.splits)
  with u obtain b where "u = png_data_url b" using parse_response_png by blast
  with u show ?thesis by (simp add: image_of_png_data_url)
qed

lemma retry_editor_accepted:
  "retry_accepted hat_session retry_editor 1 default_settings (user_message ''add a hat'' (Some [url_X]))"
  by (simp add: retry_accepted_def hat_session_def retry_editor_def idle_editor_def
      preceding_message_def at_index_def)

lemma text_service_result:
  "editImageWithGemini text_service imgs p st = Inr \<lparr>imageUrl = None, text_res = Some ''no image''\<rparr>"
  by (simp add: editImageWithGemini_def text_service_def parse_response_def response_of_parts_def
      response_parts_def at_index_def text_part_def truthy_def)

lemma image_service_result:
  "editImageWithGemini image_service imgs p st
     = Inr \<lparr>imageUrl = Some ''data:image/png;base64,ZZZZ'', text_res = None\<rparr>"
  by (simp add: editImageWithGemini_def image_service_def parse_response_def response_of_parts_def
      response_parts_def at_index_def inline_part_def png_data_url_def)

lemma no_service_result: "editImageWithGemini no_service imgs p st = Inl OtherThrown"
  by (simp add: editImageWithGemini_def no_service_def)

lemma image_of_url_X: "image_of_url url_X = \<lparr>dataUrl = url_X, mimeType = Some ''image/png'', base64Data = Some ''XXXX''\<rparr>"
  by (simp add: image_of_url_def url_X_def at_index_def)

lemma result_image_Y: "result_image url_Y = \<lparr>dataUrl = url_Y, mimeType = Some ''image/png'', base64Data = Some ''YYYY''\<rparr>"
  by (simp add: result_image_def url_Y_def at_index_def)

lemma hat_retry_inputs:
  "retry_inputs (messages hat_session) (Suc 0) (user_message ''add a hat'' (Some [url_X])) = [image_of_url url_X]"
  by (simp add: retry_inputs_def user_message_def)

lemma send_completion_activeImage:
  "activeImage (send_completion clk session T M outcome) =
     (case outcome of
        Inr result \<Rightarrow> if truthy (imageUrl result) then Some (result_image (the (imageUrl result)))
                      else activeImage session
      | Inl e \<Rightarrow> activeImage session)"
  by (simp add: send_completion_def split: sum.splits)

lemma retry_completion_activeImage:
  "activeImage (retry_completion clk session M a outcome) =
     (case outcome of
        Inr result \<Rightarrow> if truthy (imageUrl result) then Some (result_image (the (imageUrl result)))
                      else a
      | Inl e \<Rightarrow> activeImage session)"
  by (simp add: retry_completion_def split: sum.splits)

lemma active_image_after_image:
  "(\<not> send_rejected ed \<and> gateway_call (handleSendMessage gc clk session ed) = Some (imgs, prompt, st) \<and>
    editImageWithGemini gc imgs prompt st = Inr result \<and> truthy (imageUrl result) \<longrightarrow>
      activeImage (last (updates (handleSendMessage gc clk session ed)))
        = Some (image_of_url (the (imageUrl result)))) \<and>
   (retry_accepted session ed msgIndex rs userMsg \<and>
    gateway_call (confirmRetry gc clk session ed) = Some (imgs, prompt, st) \<and>
    editImageWithGemini gc imgs prompt st = Inr result \<and> truthy (imageUrl result) \<longrightarrow>
      activeImage (last (updates (confirmRetry gc clk session ed)))
        = Some (image_of_url (the (imageUrl result))))"
  by (auto simp: send_accepted_updates send_accepted_call send_completion_activeImage
      retry_accepted_updates retry_accepted_call retry_completion_activeImage gateway_png)

lemma legacy_retry_accepted:
  "retry_accepted legacy_session retry_editor 1 default_settings legacy_user_message"
  by (simp add: retry_accepted_def legacy_session_def retry_editor_def idle_editor_def
      preceding_message_def at_index_def)

lemma trim_empty: "trim [] = []"
  by (simp add: trim_def)

lemma newest_first_sorted:
  "sorted_wrt (\<lambda>a b. lastModified b \<le> lastModified a) (newest_first ss)"
proof -
  have "sorted (map (\<lambda>s. - int (lastModified s)) (newest_first ss))"
    by (simp add: newest_first_def)
  then show ?thesis
    by (simp add: sorted_wrt_map sorted_wrt_iff_nth_less sorted_iff_nth_mono_less)
qed
















lemma migrate_write_failure:
  assumes "truthy (legacy st)" and "JSON_parse (the (legacy st)) = Some (JsonArray parsed)"
      and "db_ok st" and "\<not> list_all (put_ok st) parsed"
  shows "clearLocalStorageAndMigrate JSON_parse st
           = (None, st\<lparr>primary := put_all (filter (put_ok st) parsed) (primary st)\<rparr>)"
proof -
  from assms(4) have "parsed \<noteq> []" by auto
  with assms show ?thesis by (simp add: clearLocalStorageAndMigrate_def migrate_try_def)
qed




lemma blue_accepted: "\<not> send_rejected blue_editor"
  by (simp add: send_rejected_def blue_editor_def idle_editor_def trim_def is_ws_def)

lemma attach_accepted: "\<not> send_rejected attach_editor"
  by (simp add: send_rejected_def attach_editor_def idle_editor_def)

lemma blue_fields:
  "pendingImages blue_editor = []" "trim (inputValue blue_editor) = ''make it blue''"
  by (simp_all add: blue_editor_def idle_editor_def trim_def is_ws_def)

lemma attach_fields:
  "pendingImages attach_editor = [image_of_url url_X]" "trim (inputValue attach_editor) = []"
  by (simp_all add: attach_editor_def idle_editor_def trim_def)

lemma hat_fields:
  "activeImage hat_session = Some (result_image url_Y)"
  "messages hat_session = [user_message ''add a hat'' (Some [url_X]), model_image_message url_Y]"
  "title hat_session = ''add a hat''" "lastModified hat_session = 5"
  "settings hat_session = Some default_settings"
  by (simp_all add: hat_session_def)



lemma image_service_url:
  "editImageWithGemini image_service imgs p st = Inr \<lparr>imageUrl = Some url_Z, text_res = None\<rparr>"
  by (simp add: image_service_result url_Z_def)

lemma sky_accepted: "\<not> send_rejected sky_editor"
  by (simp add: send_rejected_def sky_editor_def idle_editor_def trim_sky)

lemma sky_fields:
  "pendingImages sky_editor = []"
  "trim (inputValue sky_editor) = ''Make the sky orange and dramatic please''"
  by (simp_all add: sky_editor_def idle_editor_def trim_sky)

lemma idle_rejected: "send_rejected idle_editor"
  by (simp add: send_rejected_def idle_editor_def trim_def)

lemma hat_send_call:
  "gateway_call (handleSendMessage gc tick hat_session blue_editor)
     = Some ([result_image url_Y], ''make it blue'', default_settings)"
  by (simp add: send_accepted_call [OF blue_accepted] blue_fields hat_fields resolve_context_def
      session_settings_def)

lemma hat_retry_call:
  "gateway_call (confirmRetry gc tick hat_session retry_editor)
     = Some ([image_of_url url_X], ''add a hat'', default_settings)"
proof -
  have "fullPrompt (user_message ''add a hat'' (Some [url_X])) (retryPrompt retry_editor) = ''add a hat''"
    by (simp add: fullPrompt_def user_message_def retry_editor_def idle_editor_def trim_empty
        or_else_def truthy_def)
  then show ?thesis
    using hat_retry_inputs by (simp add: retry_accepted_call [OF retry_editor_accepted])
qed




section \<open>The claims\<close>



text \<open>
  C2. After a retry whose call fails, the active image should be the one the session had
  when the call was made: the rewound image, as after a retry that returns only text.
  Here the user sent image \<open>X\<close>, the answer \<open>Y\<close> was active, and the retry fails: the
  rewind makes \<open>X\<close> active and removes the answer from the messages, and the completion
  makes \<open>Y\<close> active again, an image no message holds any more. The same retry answered
  with text only keeps \<open>X\<close>.
\<close>

theorem failed_retry_restores_discarded_image:
  "messages hat_session = [user_message ''add a hat'' (Some [url_X]), model_image_message url_Y] \<and>
   activeImage hat_session = Some (result_image url_Y) \<and>
   activeImage (hd (updates (confirmRetry no_service tick hat_session retry_editor)))
     = Some (image_of_url url_X) \<and>
   messages (last (updates (confirmRetry no_service tick hat_session retry_editor)))
     = [user_message ''add a hat'' (Some [url_X]),
        error_message tick 0 ''Sorry, something went wrong.'' OtherThrown] \<and>
   activeImage (last (updates (confirmRetry no_service tick hat_session retry_editor)))
     = Some (result_image url_Y) \<and>
   activeImage (last (updates (confirmRetry text_service tick hat_session retry_editor)))
     = Some (image_of_url url_X) \<and>
   image_of_url url_X \<noteq> result_image url_Y"
proof -
  have m: "messages hat_session = [user_message ''add a hat'' (Some [url_X]), model_image_message url_Y]"
    and b: "activeImage hat_session = Some (result_image url_Y)"
    by (simp_all add: hat_session_def)
  have a: "activeImage (last (updates (confirmRetry text_service tick hat_session retry_editor)))
      = Some (image_of_url url_X)"
    by (simp add: retry_accepted_updates [OF retry_editor_accepted] text_service_result
        retry_completion_def truthy_def hat_retry_inputs last_option_def)
  have c: "image_of_url url_X \<noteq> result_image url_Y"
    unfolding image_of_url_X result_image_Y by (simp add: url_X_def url_Y_def)
  have d: "activeImage (hd (updates (confirmRetry no_service tick hat_session retry_editor)))
      = Some (image_of_url url_X)"
    by (simp add: retry_accepted_updates [OF retry_editor_accepted] hat_retry_inputs last_option_def)
  have e: "activeImage (last (updates (confirmRetry no_service tick hat_session retry_editor)))
      = Some (result_image url_Y)"
    by (simp add: retry_accepted_updates [OF retry_editor_accepted] no_service_result
        retry_completion_def b)
  have f: "messages (last (updates (confirmRetry no_service tick hat_session retry_editor)))
     = [user_message ''add a hat'' (Some [url_X]),
        error_message tick 0 ''Sorry, something went wrong.'' OtherThrown]"
    by (simp add: retry_accepted_updates [OF retry_editor_accepted] no_service_result
        retry_completion_def m)
  from m b a c d e f show ?thesis by simp
qed

text \<open>
  C3. A retry should take its inputs from the preceding user message's own images, the
  legacy \<open>image\<close> field counting as a one-element list. Here the preceding user message
  carries only the legacy field: the retry sends no image at all, although the history
  scan applied to the same message finds its image.
\<close>

theorem retry_ignores_legacy_image:
  "image_msg (messages legacy_session ! 0) = Some url_X \<and>
   gateway_call (confirmRetry no_service tick legacy_session retry_editor)
     = Some ([], ''add a hat'', default_settings) \<and>
   scan_history (rev (take 1 (messages legacy_session))) = Some (image_of_url url_X)"
proof -
  have a: "retry_inputs (messages legacy_session) 1 legacy_user_message = []"
    by (simp add: retry_inputs_def legacy_user_message_def)
  have b: "fullPrompt legacy_user_message (retryPrompt retry_editor) = ''add a hat''"
    by (simp add: fullPrompt_def legacy_user_message_def retry_editor_def idle_editor_def
        trim_empty or_else_def truthy_def)
  have c: "scan_history (rev (take 1 (messages legacy_session))) = Some (image_of_url url_X)"
    by (simp add: legacy_session_def legacy_user_message_def truthy_def url_X_def)
  have d: "image_msg (messages legacy_session ! 0) = Some url_X"
    by (simp add: legacy_session_def legacy_user_message_def)
  from a b c d show ?thesis
    by (simp add: retry_accepted_call [OF legacy_retry_accepted])
qed

text \<open>
  C4, as the code has it. Of the returned parts, the last inline-image part gives
  \<open>imageUrl\<close> (as a \<open>data:image/png;base64,\<close> URL) and the last part with a non-empty
  text and no inline data gives \<open>text\<close>. A response without candidates, without a first
  candidate, without content or without parts gives a result with both fields absent.
\<close>

theorem last_part_wins:
  "parse_response \<lparr>candidates = Some (\<lparr>content = Some \<lparr>content_parts = Some ps\<rparr>\<rparr> # cs)\<rparr>
     = \<lparr>imageUrl = last_option (image_urls ps), text_res = last_option (text_values ps)\<rparr> \<and>
   parse_response \<lparr>candidates = Some (\<lparr>content = Some \<lparr>content_parts = None\<rparr>\<rparr> # cs)\<rparr>
     = \<lparr>imageUrl = None, text_res = None\<rparr> \<and>
   parse_response \<lparr>candidates = Some (\<lparr>content = None\<rparr> # cs)\<rparr>
     = \<lparr>imageUrl = None, text_res = None\<rparr> \<and>
   parse_response \<lparr>candidates = Some []\<rparr> = \<lparr>imageUrl = None, text_res = None\<rparr> \<and>
   parse_response \<lparr>candidates = None\<rparr> = \<lparr>imageUrl = None, text_res = None\<rparr>"
  by (simp add: parse_response_def response_parts_def at_index_def scan_parts_last last_option_def)

theorem last_part_wins_witness:
  "parse_response (response_of_parts [inline_part ''AAAA'', inline_part ''BBBB'', text_part ''two''])
     = \<lparr>imageUrl = Some ''data:image/png;base64,BBBB'', text_res = Some ''two''\<rparr>"
  using last_part_wins [of "[inline_part ''AAAA'', inline_part ''BBBB'', text_part ''two'']" "[]"]
  by (simp add: response_of_parts_def image_urls_def text_values_def last_option_def
      inline_part_def text_part_def png_data_url_def truthy_def)

text \<open>
  C4 as stated fails on a response with two image parts and two text parts: the second of
  each kind is returned, not the first.
\<close>

theorem first_part_counterexample:
  "parse_response (response_of_parts
      [inline_part ''AAAA'', text_part ''one'', inline_part ''BBBB'', text_part ''two''])
     = \<lparr>imageUrl = Some ''data:image/png;base64,BBBB'', text_res = Some ''two''\<rparr> \<and>
   imageUrl (parse_response (response_of_parts
      [inline_part ''AAAA'', text_part ''one'', inline_part ''BBBB'', text_part ''two'']))
     \<noteq> Some ''data:image/png;base64,AAAA'' \<and>
   text_res (parse_response (response_of_parts
      [inline_part ''AAAA'', text_part ''one'', inline_part ''BBBB'', text_part ''two'']))
     \<noteq> Some ''one''"
  by (simp add: parse_response_def response_of_parts_def response_parts_def at_index_def
      inline_part_def text_part_def png_data_url_def truthy_def)

text \<open>
  C5. A rejected send changes nothing. A send that goes ahead appends the user message
  (length + 1) and then a model or error message (length + 2). A retry that goes ahead
  first cuts the messages to the length before the target message and then appends exactly
  one model or error message.
\<close>

theorem history_length_law:
  "(send_rejected ed \<longrightarrow> updates (handleSendMessage gc clk session ed) = []) \<and>
   (\<not> send_rejected ed \<longrightarrow>
      (\<exists>u1 u2 um mm.
         updates (handleSendMessage gc clk session ed) = [u1, u2] \<and>
         messages u1 = messages session @ [um] \<and> role um = User \<and>
         messages u2 = messages session @ [um, mm] \<and> role mm = Model \<and>
         length (messages u1) = length (messages session) + 1 \<and>
         length (messages u2) = length (messages session) + 2)) \<and>
   (retry_accepted session ed msgIndex rs userMsg \<longrightarrow>
      (\<exists>u1 u2 mm.
         updates (confirmRetry gc clk session ed) = [u1, u2] \<and>
         messages u1 = take msgIndex (messages session) \<and>
         length (messages u1) = msgIndex \<and> msgIndex \<le> length (messages session) \<and>
         messages u2 = take msgIndex (messages session) @ [mm] \<and> role mm = Model \<and>
         length (messages u2) = msgIndex + 1))"
proof -
  have a: "send_rejected ed \<longrightarrow> updates (handleSendMessage gc clk session ed) = []"
    by (simp add: send_rejected_result)
  have b: "\<not> send_rejected ed \<longrightarrow>
      (\<exists>u1 u2 um mm.
         updates (handleSendMessage gc clk session ed) = [u1, u2] \<and>
         messages u1 = messages session @ [um] \<and> role um = User \<and>
         messages u2 = messages session @ [um, mm] \<and> role mm = Model \<and>
         length (messages u1) = length (messages session) + 1 \<and>
         length (messages u2) = length (messages session) + 2)"
  proof
    assume acc: "\<not> send_rejected ed"
    let ?um = "new_user_message clk (trim (inputValue ed)) (pendingImages ed)"
    let ?T = "new_title session (trim (inputValue ed)) (pendingImages ed)"
    let ?o = "editImageWithGemini gc
           (fst (resolve_context (pendingImages ed) (activeImage session) (messages session)))
           (if trim (inputValue ed) \<noteq> [] then trim (inputValue ed) else ''Edit this image'')
           (session_settings session)"
    obtain mm where mm: "messages (send_completion clk session ?T (messages session @ [?um]) ?o)
        = (messages session @ [?um]) @ [mm]" "role mm = Model"
      using send_completion_messages by blast
    have "role ?um = User" by (simp add: new_user_message_def)
    with mm show "\<exists>u1 u2 um mm.
         updates (handleSendMessage gc clk session ed) = [u1, u2] \<and>
         messages u1 = messages session @ [um] \<and> role um = User \<and>
         messages u2 = messages session @ [um, mm] \<and> role mm = Model \<and>
         length (messages u1) = length (messages session) + 1 \<and>
         length (messages u2) = length (messages session) + 2"
      by (simp add: send_accepted_updates [OF acc])
  qed
  have c: "retry_accepted session ed msgIndex rs userMsg \<longrightarrow>
      (\<exists>u1 u2 mm.
         updates (confirmRetry gc clk session ed) = [u1, u2] \<and>
         messages u1 = take msgIndex (messages session) \<and>
         length (messages u1) = msgIndex \<and> msgIndex \<le> length (messages session) \<and>
         messages u2 = take msgIndex (messages session) @ [mm] \<and> role mm = Model \<and>
         length (messages u2) = msgIndex + 1)"
  proof
    assume acc: "retry_accepted session ed msgIndex rs userMsg"
    then have le: "msgIndex \<le> length (messages session)"
      using preceding_message_bounds by (auto simp: retry_accepted_def)
    let ?M = "take msgIndex (messages session)"
    let ?a = "last_option (retry_inputs (messages session) msgIndex userMsg)"
    let ?o = "editImageWithGemini gc (retry_inputs (messages session) msgIndex userMsg)
           (fullPrompt userMsg (retryPrompt ed)) rs"
    obtain mm where mm: "messages (retry_completion clk session ?M ?a ?o) = ?M @ [mm]" "role mm = Model"
      using retry_completion_messages by blast
    with le show "\<exists>u1 u2 mm.
         updates (confirmRetry gc clk session ed) = [u1, u2] \<and>
         messages u1 = take msgIndex (messages session) \<and>
         length (messages u1) = msgIndex \<and> msgIndex \<le> length (messages session) \<and>
         messages u2 = take msgIndex (messages session) @ [mm] \<and> role mm = Model \<and>
         length (messages u2) = msgIndex + 1"
      by (simp add: retry_accepted_updates [OF acc])
  qed
  from a b c show ?thesis by blast
qed

theorem history_length_law_witness:
  "send_rejected idle_editor \<and> \<not> send_rejected blue_editor \<and>
   retry_accepted hat_session retry_editor 1 default_settings (user_message ''add a hat'' (Some [url_X])) \<and>
   length (messages hat_session) = 2 \<and>
   updates (handleSendMessage no_service tick hat_session idle_editor) = [] \<and>
   map (\<lambda>u. length (messages u)) (updates (handleSendMessage no_service tick hat_session blue_editor))
     = [3, 4] \<and>
   map (\<lambda>u. length (messages u)) (updates (confirmRetry no_service tick hat_session retry_editor))
     = [1, 2]"
proof -
  note a = history_length_law [of idle_editor no_service tick hat_session 1 default_settings
      "user_message ''add a hat'' (Some [url_X])"]
  note b = history_length_law [of blue_editor no_service tick hat_session 1 default_settings
      "user_message ''add a hat'' (Some [url_X])"]
  note c = history_length_law [of retry_editor no_service tick hat_session 1 default_settings
      "user_message ''add a hat'' (Some [url_X])"]
  have n: "length (messages hat_session) = 2" by (simp add: hat_fields)
  have 1: "updates (handleSendMessage no_service tick hat_session idle_editor) = []"
    using a idle_rejected by simp
  have 2: "map (\<lambda>u. length (messages u)) (updates (handleSendMessage no_service tick hat_session blue_editor))
     = [3, 4]"
    using b blue_accepted n by auto
  have 3: "map (\<lambda>u. length (messages u)) (updates (confirmRetry no_service tick hat_session retry_editor))
     = [1, 2]"
    using c retry_editor_accepted by auto
  from 1 2 3 n idle_rejected blue_accepted retry_editor_accepted show ?thesis by simp
qed

text \<open>
  C6, as the code has it. A send sets the title only when the session has at most one
  message: to the first 30 characters of the trimmed text, followed by \<open>...\<close> when the
  text is longer, or to \<open>Image Edit Session\<close> when there is no text. The first text
  \<open>Make the sky orange and dramatic please\<close> gives \<open>Make the sky orange and dramat...\<close>.
  With more than one message the title stays, and neither a retry nor a settings change
  touches it.
\<close>

theorem title_assignment:
  "(\<not> send_rejected ed \<and> u \<in> set (updates (handleSendMessage gc clk session ed)) \<longrightarrow>
      (length (messages session) \<le> 1 \<and> trim (inputValue ed) \<noteq> [] \<longrightarrow>
         title u = take 30 (trim (inputValue ed)) @
                   (if 30 < length (trim (inputValue ed)) then ''...'' else []))
    \<and> (length (messages session) \<le> 1 \<and> trim (inputValue ed) = [] \<longrightarrow>
         title u = ''Image Edit Session'')
    \<and> (1 < length (messages session) \<longrightarrow> title u = title session))
   \<and> map title (updates (handleSendMessage gc clk (session\<lparr>messages := []\<rparr>)
        (ed\<lparr>inputValue := ''Make the sky orange and dramatic please'', isLoading := False\<rparr>)))
       = [''Make the sky orange and dramat...'', ''Make the sky orange and dramat...'']
   \<and> (\<forall>v \<in> set (updates (confirmRetry gc clk session ed)). title v = title session)
   \<and> title (updateSettings newSettings session) = title session"
proof -
  have a: "\<not> send_rejected ed \<and> u \<in> set (updates (handleSendMessage gc clk session ed)) \<longrightarrow>
      title u = new_title session (trim (inputValue ed)) (pendingImages ed)"
    by (auto simp: send_accepted_updates)
  have b: "\<not> send_rejected ed \<and> trim (inputValue ed) = [] \<longrightarrow> pendingImages ed \<noteq> []"
    by (auto simp: send_rejected_def)
  have c: "\<not> send_rejected (ed\<lparr>inputValue := ''Make the sky orange and dramatic please'', isLoading := False\<rparr>)"
    by (simp add: send_rejected_def trim_sky)
  have d: "\<forall>v \<in> set (updates (confirmRetry gc clk session ed)). title v = title session"
  proof (cases "\<exists>i rs m. retry_accepted session ed i rs m")
    case True
    then show ?thesis by (auto simp: retry_accepted_updates)
  next
    case False
    then show ?thesis by (simp add: retry_not_accepted_updates)
  qed
  show ?thesis
    using a b d
    by (auto simp: new_title_def send_accepted_updates [OF c] trim_sky updateSettings_def)
qed

theorem title_assignment_witness:
  "\<not> send_rejected sky_editor \<and> \<not> send_rejected attach_editor \<and> \<not> send_rejected blue_editor \<and>
   length (messages new_chat) \<le> 1 \<and> 1 < length (messages hat_session) \<and>
   title (last (updates (handleSendMessage no_service tick new_chat sky_editor)))
     = ''Make the sky orange and dramat...'' \<and>
   title (last (updates (handleSendMessage no_service tick new_chat attach_editor)))
     = ''Image Edit Session'' \<and>
   title (last (updates (handleSendMessage no_service tick hat_session blue_editor)))
     = title hat_session \<and>
   title (last (updates (confirmRetry no_service tick hat_session retry_editor)))
     = title hat_session"
proof -
  have m: "length (messages new_chat) \<le> 1" "1 < length (messages hat_session)"
    by (simp_all add: new_chat_def hat_fields)
  have u: "\<And>ed session. \<not> send_rejected ed \<Longrightarrow>
      last (updates (handleSendMessage no_service tick session ed))
        \<in> set (updates (handleSendMessage no_service tick session ed))"
    by (simp add: send_accepted_updates)
  have 1: "title (last (updates (handleSendMessage no_service tick new_chat sky_editor)))
     = ''Make the sky orange and dramat...''"
    using title_assignment [of sky_editor
        "last (updates (handleSendMessage no_service tick new_chat sky_editor))"
        no_service tick new_chat] sky_accepted u [OF sky_accepted] m
    by (simp add: sky_fields)
  have 2: "title (last (updates (handleSendMessage no_service tick new_chat attach_editor)))
     = ''Image Edit Session''"
    using title_assignment [of attach_editor
        "last (updates (handleSendMessage no_service tick new_chat attach_editor))"
        no_service tick new_chat] attach_accepted u [OF attach_accepted] m
    by (simp add: attach_fields)
  have 3: "title (last (updates (handleSendMessage no_service tick hat_session blue_editor)))
     = title hat_session"
    using title_assignment [of blue_editor
        "last (updates (handleSendMessage no_service tick hat_session blue_editor))"
        no_service tick hat_session] blue_accepted u [OF blue_accepted] m
    by simp
  have 4: "title (last (updates (confirmRetry no_service tick hat_session retry_editor)))
     = title hat_session"
    using title_assignment [where gc = no_service and clk = tick and session = hat_session
        and ed = retry_editor]
    by (simp add: retry_accepted_updates [OF retry_editor_accepted])
  from 1 2 3 4 m sky_accepted attach_accepted blue_accepted show ?thesis by simp
qed

text \<open>
  C6 as stated fails on its own example: the title keeps 30 characters, so it ends in
  \<open>dramat...\<close>, not in \<open>drama...\<close>.
\<close>

theorem title_example_counterexample:
  "title (last (updates (handleSendMessage no_service tick new_chat
      (idle_editor\<lparr>inputValue := ''Make the sky orange and dramatic please''\<rparr>))))
   = ''Make the sky orange and dramat...''
   \<and> title (last (updates (handleSendMessage no_service tick new_chat
      (idle_editor\<lparr>inputValue := ''Make the sky orange and dramatic please''\<rparr>))))
   \<noteq> ''Make the sky orange and drama...''"
  by (simp add: handleSendMessage_def send_rejected_def trim_sky idle_editor_def new_chat_def
      new_title_def Let_def case_prod_beta)




text \<open>
  C8, as the code has it. Both updates of a send and the completing update of a retry set
  \<open>lastModified\<close> to the clock reading taken for them; a settings change leaves
  \<open>lastModified\<close> as it was. The listing orders the sessions by \<open>lastModified\<close>, newest
  first, and keeps all of them.
\<close>

theorem lastModified_law:
  "(\<not> send_rejected ed \<longrightarrow>
      map lastModified (updates (handleSendMessage gc clk session ed)) = [clk 2, clk 5]) \<and>
   (retry_accepted session ed msgIndex rs userMsg \<longrightarrow>
      lastModified (last (updates (confirmRetry gc clk session ed))) = clk 2) \<and>
   lastModified (updateSettings newSettings session) = lastModified session \<and>
   sorted_wrt (\<lambda>a b. lastModified b \<le> lastModified a) (newest_first ss) \<and>
   mset (newest_first ss) = mset ss"
  by (simp add: send_accepted_updates retry_accepted_updates updateSettings_def
      newest_first_sorted) (simp add: newest_first_def)

theorem lastModified_law_witness:
  "\<not> send_rejected blue_editor \<and>
   retry_accepted hat_session retry_editor 1 default_settings (user_message ''add a hat'' (Some [url_X])) \<and>
   map lastModified (updates (handleSendMessage no_service tick hat_session blue_editor)) = [1002, 1005] \<and>
   lastModified (last (updates (confirmRetry no_service tick hat_session retry_editor))) = 1002 \<and>
   lastModified (updateSettings anime_patch hat_session) = 5 \<and>
   map lastModified (newest_first [old_session, hat_session, new_chat]) = [5, 3, 0]"
proof -
  note s = lastModified_law [where ed = blue_editor and gc = no_service and clk = tick
      and session = hat_session and newSettings = anime_patch
      and ss = "[old_session, hat_session, new_chat]"]
  note r = lastModified_law [where ed = retry_editor and gc = no_service and clk = tick
      and session = hat_session and msgIndex = 1 and rs = default_settings
      and userMsg = "user_message ''add a hat'' (Some [url_X])"]
  have 1: "map lastModified (updates (handleSendMessage no_service tick hat_session blue_editor)) = [1002, 1005]"
    using s blue_accepted by (simp add: tick_def)
  have 2: "lastModified (last (updates (confirmRetry no_service tick hat_session retry_editor))) = 1002"
    using r retry_editor_accepted by (simp add: tick_def)
  have 3: "lastModified (updateSettings anime_patch hat_session) = 5"
    using s by (simp add: hat_fields)
  have 4: "map lastModified (newest_first [old_session, hat_session, new_chat]) = [5, 3, 0]"
    by (simp add: newest_first_def old_session_def hat_session_def new_chat_def)
  from 1 2 3 4 blue_accepted retry_editor_accepted show ?thesis by simp
qed

text \<open>
  C8 as stated fails for a settings change: the settings differ afterwards and
  \<open>lastModified\<close> is still 5.
\<close>

theorem settings_change_counterexample:
  "settings (updateSettings anime_patch hat_session) \<noteq> settings hat_session \<and>
   lastModified hat_session = 5 \<and>
   lastModified (updateSettings anime_patch hat_session) = 5"
  by (simp add: updateSettings_def hat_session_def anime_patch_def merge_settings_def
      session_settings_def default_settings_def)



text \<open>
  C10. When the displayed session's id changes, the effect leaves the editor in its
  initial state for that session: no pending images, empty draft, no loading flag, no
  enhancing flag, closed settings, no retry target, settings or prompt. A send or a retry
  straight after it does nothing.
\<close>

theorem session_switch_resets_editor:
  "prev \<noteq> Some (id_session session) \<Longrightarrow>
   session_id_effect prev session ed =
     \<lparr>inputValue = [], isLoading = False, isEnhancing = False, showSettings = False,
      pendingImages = [], retryTargetIndex = None, retryPrompt = [], retrySettings = None,
      activeSessionIdRef = id_session session\<rparr> \<and>
   send_rejected (session_id_effect prev session ed) \<and>
   updates (confirmRetry gc clk session (session_id_effect prev session ed)) = []"
  by (simp add: session_id_effect_def reset_local_state_def send_rejected_def trim_empty
      confirmRetry_def)

theorem session_switch_resets_editor_witness:
  "Some ''s0'' \<noteq> Some (id_session hat_session) \<and>
   pendingImages busy_editor \<noteq> [] \<and> inputValue busy_editor \<noteq> [] \<and> isLoading busy_editor \<and>
   session_id_effect (Some ''s0'') hat_session busy_editor = idle_editor \<and>
   session_id_effect (Some ''s1'') hat_session busy_editor = busy_editor"
proof -
  have h: "Some ''s0'' \<noteq> Some (id_session hat_session)" by (simp add: hat_session_def)
  from session_switch_resets_editor [OF h, of busy_editor no_service tick] h show ?thesis
    by (simp add: idle_editor_def hat_session_def busy_editor_def session_id_effect_def)
qed

end
